theory Spec2Isabelle
  imports Complex_Main "HOL-Library.Sublist" "HOL-Library.Multiset" "HOL-Library.AList"
begin

section \<open>Bounding boxes and detections\<close>

text \<open>
  Python floats are modelled as real numbers: the properties below are about ordering,
  maxima and exact arithmetic identities, and NaN / infinities are left out.
  Python strings are modelled as \<open>string\<close>, Python ints as \<open>int\<close>.
\<close>

type_synonym bbox = "real \<times> real \<times> real \<times> real"


text \<open>\<^verbatim>\<open>DetectionResult\<close> of \<^verbatim>\<open>src/detectors/base_detector.py\<close>, with its
  methods \<^verbatim>\<open>area\<close> and \<^verbatim>\<open>iou\<close>.\<close>

record DetectionResult =
  bbox :: bbox
  confidence :: real
  class_name :: string
  class_id :: int

definition bbox_area :: "bbox \<Rightarrow> real" where
  "bbox_area b = (case b of (x1, y1, x2, y2) \<Rightarrow> (x2 - x1) * (y2 - y1))"

definition area :: "DetectionResult \<Rightarrow> real" where
  "area d = bbox_area (bbox d)"





section \<open>Non-maximum suppression\<close>

text \<open>Python's \<^verbatim>\<open>a or b\<close> on an optional float: \<^verbatim>\<open>None\<close> and \<^verbatim>\<open>0.0\<close> are falsy.\<close>

definition float_or :: "real option \<Rightarrow> real \<Rightarrow> real" where
  "float_or a b = (case a of None \<Rightarrow> b | Some v \<Rightarrow> if v = 0 then b else v)"

text \<open>The detector configuration: the two keys \<^verbatim>\<open>BaseDetector\<close> reads with
  \<^verbatim>\<open>config.get(key, default)\<close>; \<open>None\<close> is an absent key.\<close>

record detector_config =
  cfg_conf_threshold :: "real option"
  cfg_iou_threshold :: "real option"

definition config_get :: "real option \<Rightarrow> real \<Rightarrow> real" where
  "config_get entry dflt = (case entry of None \<Rightarrow> dflt | Some v \<Rightarrow> v)"





text \<open>A concrete input: two overlapping detections of class 0, one of class 1, and a
  third of class 0 away from the others; and the configuration with no key set.\<close>

definition example_detections :: "DetectionResult list" where
  "example_detections =
     [\<lparr>bbox = (1, 1, 10, 10), confidence = 8 / 10, class_name = ''drone'', class_id = 0\<rparr>,
      \<lparr>bbox = (0, 0, 10, 10), confidence = 9 / 10, class_name = ''drone'', class_id = 0\<rparr>,
      \<lparr>bbox = (20, 20, 30, 30), confidence = 7 / 10, class_name = ''bird'', class_id = 1\<rparr>,
      \<lparr>bbox = (50, 50, 60, 60), confidence = 6 / 10, class_name = ''drone'', class_id = 0\<rparr>]"

definition default_config :: detector_config where
  "default_config = \<lparr>cfg_conf_threshold = None, cfg_iou_threshold = None\<rparr>"

section \<open>Threat classification\<close>












section \<open>Metrics tracker\<close>

text \<open>\<^verbatim>\<open>MetricsTracker\<close> of \<^verbatim>\<open>src/utils/metrics.py\<close>. A Python dict is an association
  list with distinct keys in insertion order: \<open>map_of\<close> reads it and \<open>AList.update\<close>
  assigns to a key, in place when the key is present and at the end otherwise. A raised
  exception is a value of \<open>py_error\<close> on the left of a sum.\<close>

datatype py_error =
  StatisticsError | ValueError | ZeroDivisionError | RuntimeError | QueueFull | QueueEmpty
  | OtherError string

record MetricsTracker =
  metrics :: "(string \<times> real list) list"
  start_times :: "(string \<times> real) list"
  counters :: "(string \<times> int) list"

definition new_tracker :: MetricsTracker where
  "new_tracker = \<lparr>metrics = [], start_times = [], counters = []\<rparr>"

text \<open>Reading the two \<^verbatim>\<open>defaultdict\<close>s: \<^verbatim>\<open>self.metrics.get(name, [])\<close> and the counter
  that starts at 0.\<close>

definition samples :: "MetricsTracker \<Rightarrow> string \<Rightarrow> real list" where
  "samples t metric_name = (case map_of (metrics t) metric_name of None \<Rightarrow> [] | Some vs \<Rightarrow> vs)"

definition counter_value :: "MetricsTracker \<Rightarrow> string \<Rightarrow> int" where
  "counter_value t counter_name = (case map_of (counters t) counter_name of None \<Rightarrow> 0 | Some c \<Rightarrow> c)"

definition record_value :: "MetricsTracker \<Rightarrow> string \<Rightarrow> real \<Rightarrow> MetricsTracker" where
  "record_value t metric_name v =
     t\<lparr>metrics := AList.update metric_name (samples t metric_name @ [v]) (metrics t)\<rparr>"

definition increment :: "MetricsTracker \<Rightarrow> string \<Rightarrow> int \<Rightarrow> MetricsTracker" where
  "increment t counter_name v =
     t\<lparr>counters := AList.update counter_name (counter_value t counter_name + v) (counters t)\<rparr>"

text \<open>The context manager \<^verbatim>\<open>timer\<close>: \<open>start\<close> and \<open>finish\<close> are the two readings of
  \<^verbatim>\<open>time.time()\<close>, the body of the \<^verbatim>\<open>with\<close> block runs on the tracker and either
  raises (\<open>Inl\<close>) or returns (\<open>Inr\<close>); the \<^verbatim>\<open>finally\<close> clause runs on both paths and an
  exception of the body goes on to the caller.\<close>

definition timer ::
  "string \<Rightarrow> real \<Rightarrow> real \<Rightarrow> (MetricsTracker \<Rightarrow> ('e + 'a) \<times> MetricsTracker) \<Rightarrow>
   MetricsTracker \<Rightarrow> ('e + 'a) \<times> MetricsTracker" where
  "timer metric_name start finish body t =
     (case body t of
        (Inl exn, t') \<Rightarrow> (Inl exn, record_value t' metric_name (finish - start))
      | (Inr res, t') \<Rightarrow> (Inr res, record_value t' metric_name (finish - start)))"
















text \<open>\<^verbatim>\<open>reset_metric\<close>: the list under the name is cleared and the counter set to 0,
  each only when the key is present.\<close>

definition reset_metric :: "MetricsTracker \<Rightarrow> string \<Rightarrow> MetricsTracker" where
  "reset_metric t metric_name =
     (let t1 = (if map_of (metrics t) metric_name \<noteq> None
                then t\<lparr>metrics := AList.update metric_name [] (metrics t)\<rparr> else t)
      in if map_of (counters t1) metric_name \<noteq> None
         then t1\<lparr>counters := AList.update metric_name 0 (counters t1)\<rparr> else t1)"



text \<open>A tracker with two samples of one metric and one counter.\<close>

definition example_tracker :: MetricsTracker where
  "example_tracker =
     increment (record_value (record_value new_tracker ''latency'' 1) ''latency'' 3) ''frames'' 4"


section \<open>Detector front end\<close>

text \<open>\<^verbatim>\<open>BaseDetector\<close> of \<^verbatim>\<open>src/detectors/base_detector.py\<close>: the configuration, the
  loaded flag and the metrics tracker. The abstract \<^verbatim>\<open>_detect_impl\<close> and \<^verbatim>\<open>load_image\<close>
  are parameters of \<open>detect\<close> that either raise or return; \<open>start\<close> and \<open>finish\<close> are the
  clock readings of the detection timer. Logging is left out.\<close>

record BaseDetector =
  config :: detector_config
  is_loaded :: bool
  det_metrics :: MetricsTracker

datatype 'img image_arg = Image_path string | Image_data 'img

definition filter_by_confidence :: "DetectionResult list \<Rightarrow> real \<Rightarrow> DetectionResult list" where
  "filter_by_confidence results threshold = filter (\<lambda>r. confidence r \<ge> threshold) results"

definition filter_by_classes :: "DetectionResult list \<Rightarrow> int list \<Rightarrow> DetectionResult list" where
  "filter_by_classes results classes = filter (\<lambda>r. class_id r \<in> set classes) results"

text \<open>\<^verbatim>\<open>if isinstance(image, str): image = load_image(image)\<close>.\<close>

definition resolve_image :: "(string \<Rightarrow> py_error + 'img) \<Rightarrow> 'img image_arg \<Rightarrow> py_error + 'img" where
  "resolve_image load_image img_arg =
     (case img_arg of Image_path p \<Rightarrow> load_image p | Image_data i \<Rightarrow> Inr i)"

definition detect ::
  "(string \<Rightarrow> py_error + 'img) \<Rightarrow> ('img \<Rightarrow> py_error + DetectionResult list) \<Rightarrow> real \<Rightarrow> real \<Rightarrow>
   BaseDetector \<Rightarrow> 'img image_arg \<Rightarrow> real option \<Rightarrow> int list option \<Rightarrow>
   (py_error + DetectionResult list) \<times> BaseDetector" where
  "detect load_image detect_impl start finish self img_arg conf_threshold classes =
     (if \<not> is_loaded self then (Inl RuntimeError, self)
      else
        case resolve_image load_image img_arg of
          Inl e \<Rightarrow>
            (Inl e, self\<lparr>det_metrics := increment (det_metrics self) ''detection_errors'' 1\<rparr>)
        | Inr img \<Rightarrow>
            let threshold =
                  float_or conf_threshold
                    (config_get (cfg_conf_threshold (config self)) (25 / 100))
            in case timer ''detection_time'' start finish (\<lambda>t. (detect_impl img, t))
                      (det_metrics self) of
                 (Inl e, m) \<Rightarrow>
                   (Inl e, self\<lparr>det_metrics := increment m ''detection_errors'' 1\<rparr>)
               | (Inr raw, m) \<Rightarrow>
                   let filtered = filter_by_confidence raw threshold;
                       results = (case classes of None \<Rightarrow> filtered
                                  | Some cs \<Rightarrow> filter_by_classes filtered cs);
                       m1 = increment m ''detection_count'' 1;
                       m2 = record_value m1 ''num_detections'' (real (length results))
                   in (Inr results, self\<lparr>det_metrics := m2\<rparr>))"

text \<open>A loaded detector with the empty configuration, a raw detection of confidence 0.1,
  and an implementation that returns the example detections and that one.\<close>

definition example_detector :: BaseDetector where
  "example_detector = \<lparr>config = default_config, is_loaded = True, det_metrics = new_tracker\<rparr>"

definition faint_detection :: DetectionResult where
  "faint_detection =
     \<lparr>bbox = (70, 70, 80, 80), confidence = 1 / 10, class_name = ''bird'', class_id = 1\<rparr>"

definition example_impl :: "unit \<Rightarrow> py_error + DetectionResult list" where
  "example_impl img = Inr (example_detections @ [faint_detection])"


section \<open>Video processor\<close>

text \<open>Python's \<^verbatim>\<open>queue.Queue\<close>: the items in arrival order and \<^verbatim>\<open>maxsize\<close>; a queue
  whose \<^verbatim>\<open>maxsize\<close> is zero or negative is unbounded. \<^verbatim>\<open>put_nowait\<close> raises
  \<^verbatim>\<open>Full\<close> on a full queue.\<close>

record 'a Queue =
  items :: "'a list"
  maxsize :: int

definition new_queue :: "int \<Rightarrow> 'a Queue" where
  "new_queue n = \<lparr>items = [], maxsize = n\<rparr>"

definition full :: "'a Queue \<Rightarrow> bool" where
  "full q = (0 < maxsize q \<and> maxsize q \<le> int (length (items q)))"

definition put_nowait :: "'a Queue \<Rightarrow> 'a \<Rightarrow> py_error + 'a Queue" where
  "put_nowait q x = (if full q then Inl QueueFull else Inr (q\<lparr>items := items q @ [x]\<rparr>))"

text \<open>A call that waits: it returns, or it waits without bound while no other thread
  changes the queue. \<^verbatim>\<open>put(item)\<close>, with the default \<^verbatim>\<open>block=True, timeout=None\<close>,
  waits for a free slot; \<^verbatim>\<open>get(timeout=1)\<close> returns the head, or raises \<^verbatim>\<open>Empty\<close>
  once the timeout has passed.\<close>

datatype 'a waiting = Returned 'a | Blocked

definition queue_put :: "'a Queue \<Rightarrow> 'a \<Rightarrow> 'a Queue waiting" where
  "queue_put q x = (if full q then Blocked else Returned (q\<lparr>items := items q @ [x]\<rparr>))"

definition queue_get_timeout :: "'a Queue \<Rightarrow> py_error + 'a \<times> 'a Queue" where
  "queue_get_timeout q =
     (case items q of [] \<Rightarrow> Inl QueueEmpty | x # xs \<Rightarrow> Inr (x, q\<lparr>items := xs\<rparr>))"

text \<open>\<^verbatim>\<open>VideoProcessor\<close> of \<^verbatim>\<open>src/applications/video_processor.py\<close>, with the defaults
  of \<^verbatim>\<open>__init__\<close>. A video source is the list of the frames it yields before a read
  fails (for a live stream: while the run flag stays set), or \<open>None\<close> when it cannot be
  opened. The colour conversion \<open>to_rgb\<close> and \<^verbatim>\<open>AntiDroneSystem.process_frame\<close> are
  parameters; timers, logging, drawing and the output writer are left out.\<close>

record ('f, 'r) VideoProcessor =
  frame_skip :: int
  frame_queue :: "(int \<times> 'f) Queue"
  result_queue :: "(int \<times> 'r) Queue"

definition VideoProcessor_init :: "int option \<Rightarrow> int option \<Rightarrow> ('f, 'r) VideoProcessor" where
  "VideoProcessor_init frame_skip_arg queue_size_arg =
     (let skip = (case frame_skip_arg of None \<Rightarrow> 5 | Some n \<Rightarrow> n);
          queue_size = (case queue_size_arg of None \<Rightarrow> 30 | Some n \<Rightarrow> n)
      in \<lparr>frame_skip = skip, frame_queue = new_queue queue_size,
          result_queue = new_queue queue_size\<rparr>)"

text \<open>The \<^verbatim>\<open>try: put_nowait(...) except: pass\<close> of \<^verbatim>\<open>_capture_frames\<close>.\<close>

definition offer_frame :: "'a Queue \<Rightarrow> 'a \<Rightarrow> 'a Queue" where
  "offer_frame q x = (case put_nowait q x of Inl e \<Rightarrow> q | Inr q' \<Rightarrow> q')"

text \<open>The loop of \<^verbatim>\<open>_capture_frames\<close>; \<^verbatim>\<open>frame_count % self.frame_skip\<close> raises on a
  stride of 0.\<close>

fun capture_loop ::
  "('raw \<Rightarrow> 'f) \<Rightarrow> int \<Rightarrow> 'raw list \<Rightarrow> int \<Rightarrow> (int \<times> 'f) Queue \<Rightarrow> py_error + (int \<times> 'f) Queue" where
  "capture_loop to_rgb skip [] frame_count q = Inr q"
| "capture_loop to_rgb skip (frame # rest) frame_count q =
     (if skip = 0 then Inl ZeroDivisionError
      else if frame_count mod skip = 0
      then capture_loop to_rgb skip rest (frame_count + 1)
             (offer_frame q (frame_count, to_rgb frame))
      else capture_loop to_rgb skip rest (frame_count + 1) q)"

definition capture_frames ::
  "('raw \<Rightarrow> 'f) \<Rightarrow> ('f, 'r) VideoProcessor \<Rightarrow> 'raw list option \<Rightarrow>
   py_error + ('f, 'r) VideoProcessor" where
  "capture_frames to_rgb self source =
     (case source of
        None \<Rightarrow> Inr self
      | Some frames \<Rightarrow>
          (case capture_loop to_rgb (frame_skip self) frames 0 (frame_queue self) of
             Inl e \<Rightarrow> Inl e
           | Inr q \<Rightarrow> Inr (self\<lparr>frame_queue := q\<rparr>)))"

text \<open>The loop of \<^verbatim>\<open>process_video_file\<close>: an exception of \<^verbatim>\<open>process_frame\<close> ends
  it.\<close>

fun file_loop ::
  "('raw \<Rightarrow> 'f) \<Rightarrow> ('f \<Rightarrow> py_error + 'r) \<Rightarrow> int \<Rightarrow> 'raw list \<Rightarrow> int \<Rightarrow> 'r list \<Rightarrow>
   py_error + 'r list" where
  "file_loop to_rgb process_frame skip [] frame_count results = Inr results"
| "file_loop to_rgb process_frame skip (frame # rest) frame_count results =
     (if skip = 0 then Inl ZeroDivisionError
      else if frame_count mod skip = 0
      then (case process_frame (to_rgb frame) of
              Inl e \<Rightarrow> Inl e
            | Inr result \<Rightarrow>
                file_loop to_rgb process_frame skip rest (frame_count + 1) (results @ [result]))
      else file_loop to_rgb process_frame skip rest (frame_count + 1) results)"

definition process_video_file ::
  "('raw \<Rightarrow> 'f) \<Rightarrow> ('f \<Rightarrow> py_error + 'r) \<Rightarrow> ('f, 'r) VideoProcessor \<Rightarrow> 'raw list option \<Rightarrow>
   py_error + 'r list" where
  "process_video_file to_rgb process_frame self source =
     (case source of
        None \<Rightarrow> Inl ValueError
      | Some frames \<Rightarrow> file_loop to_rgb process_frame (frame_skip self) frames 0 [])"

text \<open>One turn of the loop of \<^verbatim>\<open>_process_frames\<close>: the timed \<^verbatim>\<open>get\<close>, the
  assessment, the \<^verbatim>\<open>put\<close> on the result queue. \<^verbatim>\<open>Empty\<close> and an exception of the
  assessment lead to the next turn.\<close>

definition process_frames_step ::
  "('f \<Rightarrow> py_error + 'r) \<Rightarrow> ('f, 'r) VideoProcessor \<Rightarrow> ('f, 'r) VideoProcessor waiting" where
  "process_frames_step process_frame self =
     (case queue_get_timeout (frame_queue self) of
        Inl e \<Rightarrow> Returned self
      | Inr ((frame_count, frame), fq) \<Rightarrow>
          (case process_frame frame of
             Inl e \<Rightarrow> Returned (self\<lparr>frame_queue := fq\<rparr>)
           | Inr result \<Rightarrow>
               (case queue_put (result_queue self) (frame_count, result) of
                  Blocked \<Rightarrow> Blocked
                | Returned rq \<Rightarrow> Returned (self\<lparr>frame_queue := fq, result_queue := rq\<rparr>))))"

text \<open>The vocabulary of the specification: the frames of a source numbered from 0, those
  whose number is a multiple of the stride, and the results of processing a list of
  frames in order up to the first failure.\<close>

definition selected_frames :: "('raw \<Rightarrow> 'f) \<Rightarrow> int \<Rightarrow> 'raw list \<Rightarrow> (int \<times> 'f) list" where
  "selected_frames to_rgb skip frames =
     map (\<lambda>(n, frame). (int n, to_rgb frame))
       (filter (\<lambda>(n, frame). skip dvd int n) (enumerate 0 frames))"

fun process_all :: "('f \<Rightarrow> py_error + 'r) \<Rightarrow> 'f list \<Rightarrow> py_error + 'r list" where
  "process_all process_frame [] = Inr []"
| "process_all process_frame (x # xs) =
     (case process_frame x of
        Inl e \<Rightarrow> Inl e
      | Inr r \<Rightarrow> (case process_all process_frame xs of Inl e \<Rightarrow> Inl e | Inr rs \<Rightarrow> Inr (r # rs)))"

text \<open>A processor built with the defaults, eleven numbered frames, and a processor of
  queue size 1 whose result queue holds a result and whose frame queue holds a frame.\<close>

definition default_processor :: "(nat, string) VideoProcessor" where
  "default_processor = VideoProcessor_init None None"

definition eleven_frames :: "nat list" where
  "eleven_frames = [100, 101, 102, 103, 104, 105, 106, 107, 108, 109, 110]"

definition stalled_processor :: "(nat, string) VideoProcessor" where
  "stalled_processor =
     \<lparr>frame_skip = 5,
      frame_queue = \<lparr>items = [(5, 105)], maxsize = 1\<rparr>,
      result_queue = \<lparr>items = [(0, ''LOW'')], maxsize = 1\<rparr>\<rparr>"


section \<open>Properties of the intersection over union\<close>









section \<open>Properties of non-maximum suppression\<close>














section \<open>Properties of the threat classification\<close>














section \<open>Properties of the metrics tracker\<close>

lemma example_tracker_eq:
  "example_tracker =
     \<lparr>metrics = [(''latency'', [1, 3])], start_times = [], counters = [(''frames'', 4)]\<rparr>"
  by (simp add: example_tracker_def new_tracker_def record_value_def increment_def
      samples_def counter_value_def)

lemma samples_record_value:
  "samples (record_value t n v) m = (if m = n then samples t n @ [v] else samples t m)"
  by (simp add: samples_def record_value_def update_conv')











text \<open>
  Claim C7. A \<^verbatim>\<open>timer\<close> scope records exactly one sample under its metric name when
  it exits, the elapsed time, after whatever its body recorded, and that whether the
  body returns or raises; the samples of every other name and the counters are those
  the body left, and the outcome of the body, its exception included, is the outcome
  of the scope.
\<close>

theorem timer_records_exactly_once:
  "samples (snd (timer name start finish body t)) name =
     samples (snd (body t)) name @ [finish - start] \<and>
   length (samples (snd (timer name start finish body t)) name) =
     length (samples (snd (body t)) name) + 1 \<and>
   (\<forall>other. other \<noteq> name \<longrightarrow>
      samples (snd (timer name start finish body t)) other = samples (snd (body t)) other) \<and>
   counters (snd (timer name start finish body t)) = counters (snd (body t)) \<and>
   fst (timer name start finish body t) = fst (body t)"
proof -
  obtain r t' where b: "body t = (r, t')" by (cases "body t")
  have tm: "timer name start finish body t = (r, record_value t' name (finish - start))"
    by (cases r) (simp_all add: timer_def b)
  show ?thesis
    unfolding tm b by (simp add: samples_record_value) (simp add: record_value_def)
qed

theorem timer_records_exactly_once_witness:
  "samples (snd (timer ''detection'' 10 12 (\<lambda>t. (Inl RuntimeError :: py_error + unit, t))
      example_tracker)) ''detection'' = [2] \<and>
   fst (timer ''detection'' 10 12 (\<lambda>t. (Inl RuntimeError :: py_error + unit, t))
      example_tracker) = Inl RuntimeError \<and>
   samples (snd (timer ''latency'' 10 12 (\<lambda>t. (Inr () :: py_error + unit, t))
      example_tracker)) ''latency'' = [1, 3, 2] \<and>
   ''latency'' \<noteq> ''detection'' \<and>
   samples (snd (timer ''detection'' 10 12 (\<lambda>t. (Inl RuntimeError :: py_error + unit, t))
      example_tracker)) ''latency'' = [1, 3]"
proof -
  have s: "samples example_tracker ''latency'' = [1, 3]"
          "samples example_tracker ''detection'' = []"
    by (simp_all add: example_tracker_eq samples_def)
  show ?thesis
    using timer_records_exactly_once [of "''detection''" 10 12
            "\<lambda>t. (Inl RuntimeError :: py_error + unit, t)" example_tracker]
          timer_records_exactly_once [of "''latency''" 10 12
            "\<lambda>t. (Inr () :: py_error + unit, t)" example_tracker]
    by (simp add: s)
qed

text \<open>
  Claim C9. After \<^verbatim>\<open>reset_metric(name)\<close> the sample list under the name is empty and
  the counter of the name reads 0; the samples and the counter of every other name, the
  keys of both dictionaries and the timer starts are as before.
\<close>

theorem reset_metric_frame:
  "samples (reset_metric t name) name = [] \<and>
   counter_value (reset_metric t name) name = 0 \<and>
   (\<forall>other. other \<noteq> name \<longrightarrow>
      map_of (metrics (reset_metric t name)) other = map_of (metrics t) other \<and>
      samples (reset_metric t name) other = samples t other \<and>
      map_of (counters (reset_metric t name)) other = map_of (counters t) other \<and>
      counter_value (reset_metric t name) other = counter_value t other) \<and>
   map fst (metrics (reset_metric t name)) = map fst (metrics t) \<and>
   map fst (counters (reset_metric t name)) = map fst (counters t) \<and>
   start_times (reset_metric t name) = start_times t"
proof -
  have k: "map_of al name \<noteq> None \<Longrightarrow> map fst (AList.update name v al) = map fst al"
    for al :: "(string \<times> 'v) list" and v
    by (auto simp: update_keys map_of_eq_None_iff)
  show ?thesis
    by (auto simp: reset_metric_def samples_def counter_value_def Let_def update_conv' k
             split: option.splits)
qed

theorem reset_metric_frame_witness:
  "samples (reset_metric example_tracker ''latency'') ''latency'' = [] \<and>
   ''frames'' \<noteq> ''latency'' \<and>
   counter_value (reset_metric example_tracker ''latency'') ''frames'' = 4 \<and>
   counter_value (reset_metric example_tracker ''frames'') ''frames'' = 0 \<and>
   samples (reset_metric example_tracker ''frames'') ''latency'' = [1, 3]"
proof -
  have s: "samples example_tracker ''latency'' = [1, 3]"
          "counter_value example_tracker ''frames'' = 4"
    by (simp_all add: example_tracker_eq samples_def counter_value_def)
  show ?thesis
    using reset_metric_frame [of example_tracker "''latency''"]
          reset_metric_frame [of example_tracker "''frames''"]
    by (simp add: s)
qed

section \<open>Properties of the detector front end\<close>

lemma detect_result:
  assumes "is_loaded self"
    and "resolve_image load_image img_arg = Inr img"
    and "detect_impl img = Inr raw"
  shows "fst (detect load_image detect_impl start finish self img_arg conf_threshold classes) =
           Inr (case classes of
                  None \<Rightarrow>
                    filter (\<lambda>r. float_or conf_threshold
                                  (config_get (cfg_conf_threshold (config self)) (25 / 100))
                                \<le> confidence r) raw
                | Some cs \<Rightarrow>
                    filter (\<lambda>r. class_id r \<in> set cs)
                      (filter (\<lambda>r. float_or conf_threshold
                                  (config_get (cfg_conf_threshold (config self)) (25 / 100))
                                \<le> confidence r) raw))"
  using assms
  by (simp add: detect_def timer_def Let_def filter_by_confidence_def filter_by_classes_def
           split: option.splits)

text \<open>
  Claim C10. On a loaded detector whose image loads and whose implementation returns the
  raw detections, \<^verbatim>\<open>detect\<close> called with \<^verbatim>\<open>conf_threshold\<close> 0.0 or \<^verbatim>\<open>None\<close> filters with
  the configured default threshold (0.25 when the configuration has none), so a raw
  detection whose confidence is below that default is not returned; called with a
  threshold \<open>t\<close> other than 0, so with any positive one, it keeps exactly the raw
  detections of confidence at least \<open>t\<close> (of the requested classes, when classes are
  given).
\<close>

theorem detect_zero_threshold_uses_default:
  assumes "is_loaded self"
    and "resolve_image load_image img_arg = Inr img"
    and "detect_impl img = Inr raw"
  shows "(conf_threshold = None \<or> conf_threshold = Some 0 \<longrightarrow>
            fst (detect load_image detect_impl start finish self img_arg conf_threshold None) =
              Inr (filter (\<lambda>r. (case cfg_conf_threshold (config self) of
                                   None \<Rightarrow> 25 / 100 | Some d \<Rightarrow> d) \<le> confidence r) raw) \<and>
            (\<forall>r \<in> set raw.
               confidence r < (case cfg_conf_threshold (config self) of
                                 None \<Rightarrow> 25 / 100 | Some d \<Rightarrow> d) \<longrightarrow>
               (\<forall>rs. fst (detect load_image detect_impl start finish self img_arg
                            conf_threshold classes) = Inr rs \<longrightarrow> r \<notin> set rs))) \<and>
         (\<forall>t. conf_threshold = Some t \<and> t \<noteq> 0 \<longrightarrow>
            fst (detect load_image detect_impl start finish self img_arg conf_threshold None) =
              Inr (filter (\<lambda>r. t \<le> confidence r) raw) \<and>
            (\<forall>cs. fst (detect load_image detect_impl start finish self img_arg conf_threshold
                        (Some cs)) =
              Inr (filter (\<lambda>r. class_id r \<in> set cs) (filter (\<lambda>r. t \<le> confidence r) raw))))"
proof -
  have z: "conf_threshold = None \<or> conf_threshold = Some 0 \<Longrightarrow>
        float_or conf_threshold (config_get (cfg_conf_threshold (config self)) (25 / 100)) =
          (case cfg_conf_threshold (config self) of None \<Rightarrow> 25 / 100 | Some d \<Rightarrow> d)"
    by (auto simp: float_or_def config_get_def split: option.splits)
  have p: "conf_threshold = Some t \<Longrightarrow> t \<noteq> 0 \<Longrightarrow>
        float_or conf_threshold (config_get (cfg_conf_threshold (config self)) (25 / 100)) = t"
    for t
    by (simp add: float_or_def)
  have d: "fst (detect load_image detect_impl start finish self img_arg conf_threshold cl) =
           Inr (case cl of
                  None \<Rightarrow>
                    filter (\<lambda>r. float_or conf_threshold
                                  (config_get (cfg_conf_threshold (config self)) (25 / 100))
                                \<le> confidence r) raw
                | Some cs \<Rightarrow>
                    filter (\<lambda>r. class_id r \<in> set cs)
                      (filter (\<lambda>r. float_or conf_threshold
                                  (config_get (cfg_conf_threshold (config self)) (25 / 100))
                                \<le> confidence r) raw))" for cl
    using assms by (rule detect_result)
  show ?thesis
  proof (intro conjI impI allI ballI)
    assume c: "conf_threshold = None \<or> conf_threshold = Some 0"
    show "fst (detect load_image detect_impl start finish self img_arg conf_threshold None) =
              Inr (filter (\<lambda>r. (case cfg_conf_threshold (config self) of
                                   None \<Rightarrow> 25 / 100 | Some d \<Rightarrow> d) \<le> confidence r) raw)"
      using d [of None, unfolded z [OF c]] by simp
  next
    fix r rs
    assume c: "conf_threshold = None \<or> conf_threshold = Some 0"
      and r: "r \<in> set raw"
        "confidence r < (case cfg_conf_threshold (config self) of
                                 None \<Rightarrow> 25 / 100 | Some d \<Rightarrow> d)"
      and rs: "fst (detect load_image detect_impl start finish self img_arg
                            conf_threshold classes) = Inr rs"
    from d [of classes, unfolded z [OF c]] rs r show "r \<notin> set rs"
      by (auto split: option.splits)
  next
    fix t
    assume "conf_threshold = Some t \<and> t \<noteq> 0"
    then have t: "conf_threshold = Some t" "t \<noteq> 0" by simp_all
    show "fst (detect load_image detect_impl start finish self img_arg conf_threshold None) =
              Inr (filter (\<lambda>r. t \<le> confidence r) raw)"
      using d [of None, unfolded p [OF t]] by simp
  next
    fix t cs
    assume "conf_threshold = Some t \<and> t \<noteq> 0"
    then have t: "conf_threshold = Some t" "t \<noteq> 0" by simp_all
    show "fst (detect load_image detect_impl start finish self img_arg conf_threshold (Some cs)) =
              Inr (filter (\<lambda>r. class_id r \<in> set cs) (filter (\<lambda>r. t \<le> confidence r) raw))"
      using d [of "Some cs", unfolded p [OF t]] by simp
  qed
qed

theorem detect_zero_threshold_uses_default_witness:
  "is_loaded example_detector \<and>
   example_impl () = Inr (example_detections @ [faint_detection]) \<and>
   fst (detect (\<lambda>p. Inl (OtherError p)) example_impl 0 1 example_detector (Image_data ())
          (Some 0) None) = Inr example_detections \<and>
   fst (detect (\<lambda>p. Inl (OtherError p)) example_impl 0 1 example_detector (Image_data ())
          None None) = Inr example_detections \<and>
   fst (detect (\<lambda>p. Inl (OtherError p)) example_impl 0 1 example_detector (Image_data ())
          (Some (85 / 100)) None) = Inr [example_detections ! 1]"
proof -
  have l: "is_loaded example_detector" by (simp add: example_detector_def)
  have i: "resolve_image (\<lambda>p. Inl (OtherError p)) (Image_data ()) = (Inr () :: py_error + unit)"
    by (simp add: resolve_image_def)
  have r: "example_impl () = Inr (example_detections @ [faint_detection])"
    by (simp add: example_impl_def)
  have c: "cfg_conf_threshold (config example_detector) = None"
    by (simp add: example_detector_def default_config_def)
  have f: "filter (\<lambda>r. 25 / 100 \<le> confidence r) (example_detections @ [faint_detection]) =
             example_detections"
          "filter (\<lambda>r. 85 / 100 \<le> confidence r) (example_detections @ [faint_detection]) =
             [example_detections ! 1]"
    by (simp_all add: example_detections_def faint_detection_def)
  let ?d = "\<lambda>ct. fst (detect (\<lambda>p. Inl (OtherError p)) example_impl 0 1 example_detector
                      (Image_data ()) ct None)"
  have "?d (Some 0) =
          Inr (filter (\<lambda>r. (case cfg_conf_threshold (config example_detector) of
                                None \<Rightarrow> 25 / 100 | Some d \<Rightarrow> d) \<le> confidence r)
                 (example_detections @ [faint_detection]))"
    using detect_zero_threshold_uses_default
            [where detect_impl = example_impl and img = "()" and conf_threshold = "Some 0"
               and start = 0 and finish = 1, OF l i r]
    by blast
  then have z: "?d (Some 0) = Inr example_detections"
    unfolding c option.case f .
  have "?d None =
          Inr (filter (\<lambda>r. (case cfg_conf_threshold (config example_detector) of
                                None \<Rightarrow> 25 / 100 | Some d \<Rightarrow> d) \<le> confidence r)
                 (example_detections @ [faint_detection]))"
    using detect_zero_threshold_uses_default
            [where detect_impl = example_impl and img = "()" and conf_threshold = None
               and start = 0 and finish = 1, OF l i r]
    by blast
  then have n: "?d None = Inr example_detections"
    unfolding c option.case f .
  have "(85 / 100 :: real) \<noteq> 0" by simp
  then have "?d (Some (85 / 100)) =
          Inr (filter (\<lambda>r. 85 / 100 \<le> confidence r) (example_detections @ [faint_detection]))"
    using detect_zero_threshold_uses_default
            [where detect_impl = example_impl and img = "()"
               and conf_threshold = "Some (85 / 100)" and start = 0 and finish = 1, OF l i r]
    by blast
  then have p: "?d (Some (85 / 100)) = Inr [example_detections ! 1]"
    unfolding f .
  show ?thesis
    using l r z n p by blast
qed

section \<open>Properties of the video processor\<close>

lemma fold_offer_items:
  assumes "0 < maxsize q" "int (length (items q)) \<le> maxsize q"
  shows "fold (\<lambda>x q. offer_frame q x) xs q =
           q\<lparr>items := items q @ take (nat (maxsize q) - length (items q)) xs\<rparr>"
  using assms
proof (induction xs arbitrary: q)
  case Nil
  then show ?case by simp
next
  case (Cons x xs)
  show ?case
  proof (cases "full q")
    case True
    then have o: "offer_frame q x = q" by (simp add: offer_frame_def put_nowait_def)
    from True Cons.prems have "nat (maxsize q) - length (items q) = 0"
      by (simp add: full_def)
    with Cons.IH [OF Cons.prems] o show ?thesis by simp
  next
    case False
    with Cons.prems have lt: "length (items q) < nat (maxsize q)"
      by (simp add: full_def)
    let ?q = "offer_frame q x"
    have o: "?q = q\<lparr>items := items q @ [x]\<rparr>"
      using False by (simp add: offer_frame_def put_nowait_def)
    have p: "0 < maxsize ?q" "int (length (items ?q)) \<le> maxsize ?q"
      using Cons.prems lt by (simp_all add: o)
    have "nat (maxsize q) - length (items q) = Suc (nat (maxsize q) - Suc (length (items q)))"
      using lt by simp
    then show ?thesis
      using Cons.IH [OF p] by (simp add: o)
  qed
qed

lemma capture_loop_fold:
  "skip \<noteq> 0 \<Longrightarrow>
   capture_loop to_rgb skip frames (int k) q =
     Inr (fold (\<lambda>x q. offer_frame q x)
            (map (\<lambda>(n, frame). (int n, to_rgb frame))
               (filter (\<lambda>(n, frame). skip dvd int n) (enumerate k frames))) q)"
proof (induction frames arbitrary: k q)
  case Nil
  then show ?case by simp
next
  case (Cons frame rest)
  have s: "int k + 1 = int (Suc k)" by simp
  show ?case
    using Cons.prems Cons.IH [OF Cons.prems, of "Suc k"]
    by (simp add: s dvd_eq_mod_eq_0 del: of_nat_Suc)
qed

lemma file_loop_process_all:
  "skip \<noteq> 0 \<Longrightarrow>
   file_loop to_rgb process_frame skip frames (int k) results =
     (case process_all process_frame
             (map (\<lambda>(n, frame). to_rgb frame)
                (filter (\<lambda>(n, frame). skip dvd int n) (enumerate k frames))) of
        Inl e \<Rightarrow> Inl e
      | Inr rs \<Rightarrow> Inr (results @ rs))"
proof (induction frames arbitrary: k results)
  case Nil
  then show ?case by simp
next
  case (Cons frame rest)
  have s: "int k + 1 = int (Suc k)" by simp
  show ?case
    using Cons.prems Cons.IH [OF Cons.prems, of "Suc k"]
    by (simp add: s dvd_eq_mod_eq_0 del: of_nat_Suc split: sum.splits)
qed

lemma selected_frames_nth:
  "selected_frames to_rgb skip frames =
     map (\<lambda>n. (int n, to_rgb (frames ! n))) (filter (\<lambda>n. skip dvd int n) [0..<length frames])"
proof -
  have "enumerate 0 frames = enumerate 0 (map (nth frames) [0..<length frames])"
    by (simp add: map_nth)
  also have "\<dots> = map (\<lambda>k. (k, frames ! k)) [0..<length frames]"
    by (rule enumerate_map_upt)
  finally show ?thesis
    by (simp add: selected_frames_def filter_map comp_def)
qed

text \<open>
  Claim C5. A frame offered to a full frame queue is dropped without an exception
  reaching the capture loop, and a frame offered to a queue that is not full is appended.
  So on a bounded queue, while nothing is consumed, a sequence of pushes leaves the old
  items followed by the first pushed frames that fit, and pushing more frames than the
  capacity leaves exactly capacity-many items; the capture loop, for a stride other than
  0, returns normally with the queue so filled from the frames it selects.
\<close>

theorem capture_keeps_capacity_many:
  assumes "0 < maxsize q" and "int (length (items q)) \<le> maxsize q"
  shows "(full q \<longrightarrow> put_nowait q x = Inl QueueFull \<and> offer_frame q x = q) \<and>
         (\<not> full q \<longrightarrow> offer_frame q x = q\<lparr>items := items q @ [x]\<rparr>) \<and>
         fold (\<lambda>x q. offer_frame q x) xs q =
           q\<lparr>items := items q @ take (nat (maxsize q) - length (items q)) xs\<rparr> \<and>
         (nat (maxsize q) < length xs \<longrightarrow>
            int (length (items (fold (\<lambda>x q. offer_frame q x) xs q))) = maxsize q) \<and>
         (skip \<noteq> 0 \<longrightarrow>
            capture_loop to_rgb skip frames 0 q =
              Inr (q\<lparr>items := items q @ take (nat (maxsize q) - length (items q))
                                            (selected_frames to_rgb skip frames)\<rparr>)) \<and>
         (skip \<noteq> 0 \<and> nat (maxsize q) < length (selected_frames to_rgb skip frames) \<longrightarrow>
            (\<exists>q'. capture_loop to_rgb skip frames 0 q = Inr q' \<and>
                  int (length (items q')) = maxsize q'))"
proof -
  have one: "full q \<longrightarrow> put_nowait q x = Inl QueueFull \<and> offer_frame q x = q"
    "\<not> full q \<longrightarrow> offer_frame q x = q\<lparr>items := items q @ [x]\<rparr>"
    by (simp_all add: offer_frame_def put_nowait_def)
  note f = fold_offer_items [OF assms]
  have len: "int (length (items (fold (\<lambda>x q. offer_frame q x) ys q))) = maxsize q"
    if "nat (maxsize q) < length ys" for ys
    using that assms by (simp add: f)
  have c: "capture_loop to_rgb skip frames 0 q =
             Inr (fold (\<lambda>x q. offer_frame q x) (selected_frames to_rgb skip frames) q)"
    if "skip \<noteq> 0"
    using capture_loop_fold [OF that, of to_rgb frames 0 q]
    by (simp add: selected_frames_def)
  have c1: "skip \<noteq> 0 \<longrightarrow>
            capture_loop to_rgb skip frames 0 q =
              Inr (q\<lparr>items := items q @ take (nat (maxsize q) - length (items q))
                                            (selected_frames to_rgb skip frames)\<rparr>)"
    using c by (simp add: f)
  have c2: "skip \<noteq> 0 \<and> nat (maxsize q) < length (selected_frames to_rgb skip frames) \<longrightarrow>
            (\<exists>q'. capture_loop to_rgb skip frames 0 q = Inr q' \<and>
                  int (length (items q')) = maxsize q')"
  proof
    assume a: "skip \<noteq> 0 \<and> nat (maxsize q) < length (selected_frames to_rgb skip frames)"
    then have "capture_loop to_rgb skip frames 0 q =
             Inr (fold (\<lambda>x q. offer_frame q x) (selected_frames to_rgb skip frames) q)"
      using c by simp
    moreover have "int (length (items (fold (\<lambda>x q. offer_frame q x)
             (selected_frames to_rgb skip frames) q))) =
           maxsize (fold (\<lambda>x q. offer_frame q x) (selected_frames to_rgb skip frames) q)"
      using a len [of "selected_frames to_rgb skip frames"]
        fold_offer_items [OF assms, of "selected_frames to_rgb skip frames"]
      by simp
    ultimately show "\<exists>q'. capture_loop to_rgb skip frames 0 q = Inr q' \<and>
                  int (length (items q')) = maxsize q'"
      by blast
  qed
  show ?thesis
    using one f len [of xs] c1 c2 by blast
qed

theorem capture_keeps_capacity_many_witness:
  "0 < maxsize (new_queue 2 :: (int \<times> nat) Queue) \<and>
   int (length (items (new_queue 2 :: (int \<times> nat) Queue))) \<le> maxsize (new_queue 2 :: (int \<times> nat) Queue) \<and>
   (5::int) \<noteq> 0 \<and>
   nat (maxsize (new_queue 2 :: (int \<times> nat) Queue)) < length (selected_frames id 5 eleven_frames) \<and>
   capture_loop id 5 eleven_frames 0 (new_queue 2) =
     Inr \<lparr>items = [(0, 100), (5, 105)], maxsize = 2\<rparr> \<and>
   full \<lparr>items = [(0::int, 100::nat), (5, 105)], maxsize = 2\<rparr> \<and>
   offer_frame \<lparr>items = [(0::int, 100::nat), (5, 105)], maxsize = 2\<rparr> (10, 110) =
     \<lparr>items = [(0, 100), (5, 105)], maxsize = 2\<rparr>"
proof -
  have s: "selected_frames id 5 eleven_frames = [(0, 100), (5, 105), (10, 110)]"
    by (simp add: selected_frames_def eleven_frames_def enumerate_eq_zip upt_rec)
  have q: "0 < maxsize (new_queue 2 :: (int \<times> nat) Queue)"
    "int (length (items (new_queue 2 :: (int \<times> nat) Queue))) \<le> maxsize (new_queue 2 :: (int \<times> nat) Queue)"
    by (simp_all add: new_queue_def)
  have q2: "0 < maxsize \<lparr>items = [(0::int, 100::nat), (5, 105)], maxsize = 2\<rparr>"
    "int (length (items \<lparr>items = [(0::int, 100::nat), (5, 105)], maxsize = 2\<rparr>))
       \<le> maxsize \<lparr>items = [(0::int, 100::nat), (5, 105)], maxsize = 2\<rparr>"
    by simp_all
  have fl: "full \<lparr>items = [(0::int, 100::nat), (5, 105)], maxsize = 2\<rparr>"
    by (simp add: full_def)
  show ?thesis
    using capture_keeps_capacity_many
            [OF q, where x = "(10, 110)" and xs = "[]" and skip = 5 and to_rgb = id
               and frames = eleven_frames]
          capture_keeps_capacity_many
            [OF q2, where x = "(10, 110)" and xs = "[]" and skip = 5 and to_rgb = id
               and frames = "[]"] fl
    by (simp add: s new_queue_def)
qed

text \<open>
  Claim C8, as amended. The sampling stride is the constructor argument
  \<^verbatim>\<open>frame_skip\<close>, whose default is 5 whatever the mode; for a stride other than 0, the
  live capture offers to the frame queue exactly the frames whose frame counter is a
  multiple of the stride, in order, and file processing processes exactly those frames,
  in order, up to the first failure of the assessment; all other frames are skipped.
\<close>

theorem stride_selects_multiples:
  "frame_skip (VideoProcessor_init None queue_size :: ('f, 'r) VideoProcessor) = 5 \<and>
   frame_skip (VideoProcessor_init (Some n) queue_size :: ('f, 'r) VideoProcessor) = n \<and>
   (frame_skip self \<noteq> 0 \<longrightarrow>
      capture_frames to_rgb self (Some frames) =
        Inr (self\<lparr>frame_queue :=
               fold (\<lambda>x q. offer_frame q x)
                 (selected_frames to_rgb (frame_skip self) frames) (frame_queue self)\<rparr>) \<and>
      process_video_file to_rgb process_frame self (Some frames) =
        process_all process_frame (map snd (selected_frames to_rgb (frame_skip self) frames))) \<and>
   selected_frames to_rgb skip frames =
     map (\<lambda>k. (int k, to_rgb (frames ! k))) (filter (\<lambda>k. skip dvd int k) [0..<length frames])"
proof -
  have i: "frame_skip (VideoProcessor_init None queue_size :: ('f, 'r) VideoProcessor) = 5"
    "frame_skip (VideoProcessor_init (Some n) queue_size :: ('f, 'r) VideoProcessor) = n"
    by (simp_all add: VideoProcessor_init_def Let_def)
  have m: "map snd (selected_frames to_rgb s frames) =
             map (\<lambda>(n, frame). to_rgb frame)
               (filter (\<lambda>(n, frame). s dvd int n) (enumerate 0 frames))" for s
    by (simp add: selected_frames_def comp_def case_prod_unfold)
  have c: "frame_skip self \<noteq> 0 \<longrightarrow>
      capture_frames to_rgb self (Some frames) =
        Inr (self\<lparr>frame_queue :=
               fold (\<lambda>x q. offer_frame q x)
                 (selected_frames to_rgb (frame_skip self) frames) (frame_queue self)\<rparr>)"
    using capture_loop_fold [of "frame_skip self" to_rgb frames 0 "frame_queue self"]
    by (simp add: capture_frames_def selected_frames_def)
  have p: "frame_skip self \<noteq> 0 \<longrightarrow>
      process_video_file to_rgb process_frame self (Some frames) =
        process_all process_frame (map snd (selected_frames to_rgb (frame_skip self) frames))"
    using file_loop_process_all [of "frame_skip self" to_rgb process_frame frames 0 "[]"]
    by (simp add: process_video_file_def m split: sum.splits)
  show ?thesis
    using i c p selected_frames_nth [of to_rgb skip frames] by blast
qed

theorem stride_selects_multiples_witness:
  "frame_skip default_processor \<noteq> 0 \<and>
   selected_frames id 5 eleven_frames = [(0, 100), (5, 105), (10, 110)] \<and>
   capture_frames id default_processor (Some eleven_frames) =
     Inr (default_processor\<lparr>frame_queue :=
            \<lparr>items = [(0, 100), (5, 105), (10, 110)], maxsize = 30\<rparr>\<rparr>) \<and>
   process_video_file id (\<lambda>frame. if frame = 110 then Inl RuntimeError else Inr ''LOW'')
       default_processor (Some eleven_frames) = Inl RuntimeError \<and>
   process_video_file id (\<lambda>frame. if frame = 101 then Inl RuntimeError else Inr ''LOW'')
       default_processor (Some eleven_frames) = Inr [''LOW'', ''LOW'', ''LOW'']"
proof -
  have k: "frame_skip default_processor = 5"
    "frame_queue default_processor = \<lparr>items = [], maxsize = 30\<rparr>"
    by (simp_all add: default_processor_def VideoProcessor_init_def new_queue_def Let_def)
  have "selected_frames id 5 eleven_frames =
          map (\<lambda>k. (int k, id (eleven_frames ! k)))
            (filter (\<lambda>k. 5 dvd int k) [0..<length eleven_frames])"
    using stride_selects_multiples
            [where to_rgb = id and skip = 5 and frames = eleven_frames and n = 5
               and queue_size = None and self = default_processor
               and process_frame = "\<lambda>frame. Inr ''LOW''"]
    by blast
  then have s: "selected_frames id 5 eleven_frames = [(0, 100), (5, 105), (10, 110)]"
    by (simp add: eleven_frames_def upt_rec)
  show ?thesis
    using stride_selects_multiples
            [where to_rgb = id and skip = 5 and frames = eleven_frames and n = 5
               and queue_size = None and self = default_processor
               and process_frame = "\<lambda>frame. if frame = 110 then Inl RuntimeError else Inr ''LOW''",
             THEN conjunct2, THEN conjunct2, THEN conjunct1, unfolded k s]
          stride_selects_multiples
            [where to_rgb = id and skip = 5 and frames = eleven_frames and n = 5
               and queue_size = None and self = default_processor
               and process_frame = "\<lambda>frame. if frame = 101 then Inl RuntimeError else Inr ''LOW''",
             THEN conjunct2, THEN conjunct2, THEN conjunct1, unfolded k s]
    by (simp add: k s offer_frame_def put_nowait_def full_def)
qed

theorem live_stream_default_stride_counterexample:
  "frame_skip default_processor = 5 \<and>
   capture_frames id default_processor (Some eleven_frames) =
     Inr (default_processor\<lparr>frame_queue :=
            \<lparr>items = [(0, 100), (5, 105), (10, 110)], maxsize = 30\<rparr>\<rparr>) \<and>
   \<not> (10::int) dvd 5"
proof -
  have k: "frame_skip default_processor = 5"
    "frame_queue default_processor = \<lparr>items = [], maxsize = 30\<rparr>"
    by (simp_all add: default_processor_def VideoProcessor_init_def new_queue_def Let_def)
  have "capture_loop id 5 eleven_frames 0 \<lparr>items = [], maxsize = 30\<rparr> =
          Inr \<lparr>items = [(0::int, 100::nat), (5, 105), (10, 110)], maxsize = 30\<rparr>"
    by (simp add: eleven_frames_def offer_frame_def put_nowait_def full_def)
  then show ?thesis
    by (simp add: capture_frames_def k)
qed

text \<open>
  Claim C4, at a full result queue. With a frame waiting and an assessment that
  succeeds, the turn of the processing loop does not return: \<^verbatim>\<open>result_queue.put\<close> waits
  for a free slot.
\<close>

theorem process_frames_step_blocks_on_full_result_queue:
  "full (result_queue stalled_processor) \<and>
   process_frames_step (\<lambda>frame. Inr ''LOW'') stalled_processor = Blocked \<and>
   process_frames_step (\<lambda>frame. Inr ''LOW'')
     (stalled_processor\<lparr>result_queue := \<lparr>items = [], maxsize = 1\<rparr>\<rparr>) =
     Returned (stalled_processor\<lparr>frame_queue := \<lparr>items = [], maxsize = 1\<rparr>,
                 result_queue := \<lparr>items = [(5, ''LOW'')], maxsize = 1\<rparr>\<rparr>)"
  by (simp add: stalled_processor_def process_frames_step_def queue_get_timeout_def
      queue_put_def full_def)

end
